theory Spec2Isabelle
  imports Main "HOL-Library.Sublist"
begin

section \<open>Python strings\<close>

text \<open>
  A Python \<open>str\<close> is modelled by the bytes of its UTF-8 encoding (\<^typ>\<open>string\<close>): an ASCII
  character is one byte, every other code point is a sequence of bytes \<open>\<ge> 0x80\<close>.
  Searching for and replacing an ASCII literal gives the same result on the bytes as on the
  code points.
\<close>

text \<open>
  \<open>sub in s\<close>: \<open>sub\<close> occurs in \<open>s\<close> as a contiguous run of characters.
\<close>

definition py_in :: "string \<Rightarrow> string \<Rightarrow> bool" where
  "py_in sub s = sublist sub s"

text \<open>
  \<open>s.lower()\<close>. The program only searches the lowered text for the literals \<open>#e2j\<close> and
  \<open>#j2e\<close>; the only code points whose lower-case form contains one of \<open>#\<close>, \<open>e\<close>, \<open>2\<close>,
  \<open>j\<close> are those four and \<open>E\<close>, \<open>J\<close>. The model maps the ASCII capitals and leaves every
  other byte as it is.
\<close>

definition lower_char :: "char \<Rightarrow> char" where
  "lower_char c =
     (case map_of (zip ''ABCDEFGHIJKLMNOPQRSTUVWXYZ'' ''abcdefghijklmnopqrstuvwxyz'') c of
        None \<Rightarrow> c
      | Some l \<Rightarrow> l)"

definition py_lower :: "string \<Rightarrow> string" where
  "py_lower s = map lower_char s"

text \<open>
  The characters \<open>str.strip()\<close> removes (those with \<open>str.isspace()\<close>), each as its UTF-8
  encoding: U+0009 to U+000D, U+001C to U+0020, U+0085, U+00A0, U+1680, U+2000 to U+200A,
  U+2028, U+2029, U+202F, U+205F and U+3000.
\<close>

definition py_whitespace :: "string list" where
  "py_whitespace =
     [[CHR 0x09], [CHR 0x0A], [CHR 0x0B], [CHR 0x0C], [CHR 0x0D],
      [CHR 0x1C], [CHR 0x1D], [CHR 0x1E], [CHR 0x1F], [CHR 0x20],
      [CHR 0xC2, CHR 0x85], [CHR 0xC2, CHR 0xA0],
      [CHR 0xE1, CHR 0x9A, CHR 0x80],
      [CHR 0xE2, CHR 0x80, CHR 0x80], [CHR 0xE2, CHR 0x80, CHR 0x81],
      [CHR 0xE2, CHR 0x80, CHR 0x82], [CHR 0xE2, CHR 0x80, CHR 0x83],
      [CHR 0xE2, CHR 0x80, CHR 0x84], [CHR 0xE2, CHR 0x80, CHR 0x85],
      [CHR 0xE2, CHR 0x80, CHR 0x86], [CHR 0xE2, CHR 0x80, CHR 0x87],
      [CHR 0xE2, CHR 0x80, CHR 0x88], [CHR 0xE2, CHR 0x80, CHR 0x89],
      [CHR 0xE2, CHR 0x80, CHR 0x8A],
      [CHR 0xE2, CHR 0x80, CHR 0xA8], [CHR 0xE2, CHR 0x80, CHR 0xA9],
      [CHR 0xE2, CHR 0x80, CHR 0xAF],
      [CHR 0xE2, CHR 0x81, CHR 0x9F],
      [CHR 0xE3, CHR 0x80, CHR 0x80]]"

text \<open>
  Dropping leading characters of a given set, each character given as a non-empty run of
  bytes: while the text starts with one of them, that one is removed.
\<close>

function drop_leading :: "'a list list \<Rightarrow> 'a list \<Rightarrow> 'a list" where
  "drop_leading ws s =
     (case find (\<lambda>w. w \<noteq> [] \<and> prefix w s) ws of
        None \<Rightarrow> s
      | Some w \<Rightarrow> drop_leading ws (drop (length w) s))"
  by pat_completeness auto
termination
proof (relation "measure (\<lambda>(ws, s). length s)")
  show "wf (measure (\<lambda>(ws, s). length s))"
    by simp
next
  fix ws :: "'a list list" and s w :: "'a list"
  assume "find (\<lambda>w. w \<noteq> [] \<and> prefix w s) ws = Some w"
  then have "w \<noteq> []" and "prefix w s"
    by (auto simp: find_Some_iff)
  then have "s \<noteq> []" and "0 < length w"
    by auto
  then show "((ws, drop (length w) s), (ws, s)) \<in> measure (\<lambda>(ws, s). length s)"
    by simp
qed

declare drop_leading.simps [simp del]

definition py_lstrip :: "string \<Rightarrow> string" where
  "py_lstrip s = drop_leading py_whitespace s"

definition py_rstrip :: "string \<Rightarrow> string" where
  "py_rstrip s = rev (drop_leading (map rev py_whitespace) (rev s))"

definition py_strip :: "string \<Rightarrow> string" where
  "py_strip s = py_rstrip (py_lstrip s)"

text \<open>
  The characters (code points) of a text, each as the bytes of its encoding: the first byte
  of a code point gives the number of its bytes.
\<close>

definition utf8_length :: "char \<Rightarrow> nat" where
  "utf8_length c =
     (let n = (of_char c :: nat)
      in if n < 0x80 then 1 else if n < 0xE0 then 2 else if n < 0xF0 then 3 else 4)"

function utf8_chars :: "string \<Rightarrow> string list" where
  "utf8_chars [] = []"
| "utf8_chars (c # cs) =
     take (utf8_length c) (c # cs) # utf8_chars (drop (utf8_length c) (c # cs))"
  by pat_completeness auto
termination
  by (relation "measure length") (auto simp: utf8_length_def Let_def)

text \<open>
  \<open>s.replace(old, new)\<close>: the occurrences of \<open>old\<close> are found from left to right, without
  overlap, and each is replaced; an empty \<open>old\<close> matches before every character and at the
  end.
\<close>

function py_replace :: "string \<Rightarrow> string \<Rightarrow> string \<Rightarrow> string" where
  "py_replace s [] new = new @ concat (map (\<lambda>ch. ch @ new) (utf8_chars s))"
| "py_replace [] (c # cs) new = []"
| "py_replace (x # xs) (c # cs) new =
     (if prefix (c # cs) (x # xs)
      then new @ py_replace (drop (length (c # cs)) (x # xs)) (c # cs) new
      else x # py_replace xs (c # cs) new)"
  by pat_completeness auto
termination
  by (relation "measure (\<lambda>(s, old, new). length s)") auto

text \<open>
  An f-string field \<open>{v}\<close> for a value that is a string or \<open>None\<close>.
\<close>

definition py_format :: "string option \<Rightarrow> string" where
  "py_format v = (case v of None \<Rightarrow> ''None'' | Some s \<Rightarrow> s)"

section \<open>Exceptions, JSON values and subscripting\<close>

text \<open>
  The exceptions (subclasses of \<open>Exception\<close>) that matter to the control flow; every other
  exception class, of the SDKs for instance, is \<open>OtherException\<close> with its class name.
\<close>

datatype exn =
    InvalidSignatureError
  | KeyError
  | TypeError
  | IndexError
  | AttributeError
  | OtherException string

definition bind_exn :: "exn + 'a \<Rightarrow> ('a \<Rightarrow> exn + 'b) \<Rightarrow> exn + 'b" where
  "bind_exn m f = (case m of Inl e \<Rightarrow> Inl e | Inr x \<Rightarrow> f x)"

text \<open>
  The values \<open>json.loads\<close> returns, and the Lambda event: \<open>None\<close>, booleans, numbers (kept as
  their literal), strings, lists and dictionaries with string keys (looked up from the
  front).
\<close>

datatype json =
    JNull
  | JBool bool
  | JNum string
  | JStr string
  | JArr "json list"
  | JObj "(string \<times> json) list"

text \<open>\<open>v[k]\<close> for a string key \<open>k\<close>.\<close>

fun py_getitem :: "json \<Rightarrow> string \<Rightarrow> exn + json" where
  "py_getitem (JObj kvs) k = (case map_of kvs k of None \<Rightarrow> Inl KeyError | Some v \<Rightarrow> Inr v)"
| "py_getitem _ k = Inl TypeError"

text \<open>
  \<open>v[0]\<close>: the first element of a list, the first character of a string (the bytes of its
  first code point), \<open>IndexError\<close> when empty; a dictionary has no integer key.
\<close>

fun py_getitem0 :: "json \<Rightarrow> exn + json" where
  "py_getitem0 (JArr []) = Inl IndexError"
| "py_getitem0 (JArr (x # xs)) = Inr x"
| "py_getitem0 (JStr []) = Inl IndexError"
| "py_getitem0 (JStr (c # cs)) = Inr (JStr (take (utf8_length c) (c # cs)))"
| "py_getitem0 (JObj kvs) = Inl KeyError"
| "py_getitem0 _ = Inl TypeError"

text \<open>\<open>v.strip()\<close>: only a string has the method.\<close>

fun py_strip_method :: "json \<Rightarrow> exn + string" where
  "py_strip_method (JStr s) = Inr (py_strip s)"
| "py_strip_method _ = Inl AttributeError"

text \<open>
  \<open>json.dumps(s)\<close> of a string of ASCII characters (both call sites pass an ASCII literal):
  the text in double quotes, with the quote, the backslash and the control characters
  escaped. The \<open>\\uXXXX\<close> escape of a code point beyond ASCII is not modelled.
\<close>

definition hex_digit :: "nat \<Rightarrow> char" where
  "hex_digit n = ''0123456789abcdef'' ! (n mod 16)"

definition json_escape :: "char \<Rightarrow> string" where
  "json_escape c =
     (if c = CHR 0x22 then [CHR 0x5C, CHR 0x22]
      else if c = CHR 0x5C then [CHR 0x5C, CHR 0x5C]
      else if c = CHR 0x0A then [CHR 0x5C, CHR ''n'']
      else if c = CHR 0x0D then [CHR 0x5C, CHR ''r'']
      else if c = CHR 0x09 then [CHR 0x5C, CHR ''t'']
      else if c = CHR 0x08 then [CHR 0x5C, CHR ''b'']
      else if c = CHR 0x0C then [CHR 0x5C, CHR ''f'']
      else if (of_char c :: nat) < 0x20 \<or> c = CHR 0x7F
      then [CHR 0x5C, CHR ''u'', CHR ''0'', CHR ''0'',
            hex_digit (of_char c div 16), hex_digit (of_char c)]
      else [c])"

definition json_dumps :: "string \<Rightarrow> string" where
  "json_dumps s = [CHR 0x22] @ concat (map json_escape s) @ [CHR 0x22]"

section \<open>Configuration, events and collaborators\<close>

text \<open>
  The four environment variables read when the module is loaded; \<open>None\<close> is an unset
  variable.
\<close>

record environment =
  LINE_CHANNEL_ACCESS_TOKEN :: "string option"
  LINE_CHANNEL_SECRET :: "string option"
  BEDROCK_REGION :: "string option"
  BEDROCK_MODEL_ID :: "string option"

text \<open>
  The module-level clients: \<open>LineBotApi(token) if token else None\<close> and
  \<open>WebhookHandler(secret) if secret else None\<close>; an unset and an empty variable are both
  false.
\<close>

datatype line_bot_client = LineBotApi string

datatype webhook_handler = WebhookHandler string

definition line_bot_api :: "environment \<Rightarrow> line_bot_client option" where
  "line_bot_api env =
     (case LINE_CHANNEL_ACCESS_TOKEN env of
        None \<Rightarrow> None
      | Some token \<Rightarrow> if token = [] then None else Some (LineBotApi token))"

definition handler :: "environment \<Rightarrow> webhook_handler option" where
  "handler env =
     (case LINE_CHANNEL_SECRET env of
        None \<Rightarrow> None
      | Some secret \<Rightarrow> if secret = [] then None else Some (WebhookHandler secret))"

text \<open>
  The events the webhook parser produces. Only a message event carrying a text message
  reaches the registered callback.
\<close>

datatype message = TextMessage string | OtherMessage

record message_event =
  user_id :: "string option"
  message :: message
  reply_token :: string

datatype webhook_event = MessageEvent message_event | OtherEvent

text \<open>
  The collaborators, each a function of its arguments that returns a value or raises:
  the webhook parser with its signature check (\<open>handler.handle\<close> up to the dispatch), the
  profile lookup, the reply call, the model endpoint (\<open>invoke_model\<close> and the read of the
  response body) and \<open>json.loads\<close>. The request sent to the model is kept as the JSON
  document that \<open>json.dumps\<close> encodes.
\<close>

record world =
  parse_webhook :: "webhook_handler \<Rightarrow> json \<Rightarrow> json \<Rightarrow> exn + webhook_event list"
  get_profile :: "line_bot_client \<Rightarrow> string option \<Rightarrow> exn + string"
  reply_message :: "line_bot_client \<Rightarrow> string \<Rightarrow> string \<Rightarrow> exn + unit"
  invoke_model :: "string option \<Rightarrow> json \<Rightarrow> exn + string"
  json_loads :: "string \<Rightarrow> exn + json"

text \<open>
  What a run does besides returning: the log lines and the calls to the collaborators, in
  order. A log line made of a prefix and an exception keeps the exception.
\<close>

datatype effect =
    Log_info_event json
  | Log_info string
  | Log_error string
  | Log_error_exn string exn
  | Call_handle json json
  | Call_get_profile "string option"
  | Call_invoke_model "string option" json
  | Call_reply_message string string

fun is_call :: "effect \<Rightarrow> bool" where
  "is_call (Call_handle b s) = True"
| "is_call (Call_get_profile u) = True"
| "is_call (Call_invoke_model m b) = True"
| "is_call (Call_reply_message t r) = True"
| "is_call _ = False"

section \<open>TranslationService.translate\_text\<close>

definition translation_prompt :: "string \<Rightarrow> string \<Rightarrow> string" where
  "translation_prompt target_lang text =
     (if target_lang = ''en''
      then ''Translate the following text to English. Only provide the translation, no explanations:''
           @ [CHR 0x0A, CHR 0x0A] @ text
      else ''Translate the following text to Japanese. Only provide the translation, no explanations:''
           @ [CHR 0x0A, CHR 0x0A] @ text)"

definition request_body :: "string \<Rightarrow> json" where
  "request_body prompt =
     JObj [(''messages'',
            JArr [JObj [(''role'', JStr ''user''),
                        (''content'', JArr [JObj [(''text'', JStr prompt)]])]])]"

text \<open>The body of the \<open>try\<close> block, after the call: read, parse, extract, trim.\<close>

definition extract_translation :: "world \<Rightarrow> exn + string \<Rightarrow> exn + string" where
  "extract_translation w response =
     bind_exn response (\<lambda>raw.
     bind_exn (json_loads w raw) (\<lambda>response_body.
     bind_exn (py_getitem response_body ''output'') (\<lambda>output.
     bind_exn (py_getitem output ''message'') (\<lambda>msg.
     bind_exn (py_getitem msg ''content'') (\<lambda>content.
     bind_exn (py_getitem0 content) (\<lambda>first.
     bind_exn (py_getitem first ''text'') (\<lambda>txt.
     py_strip_method txt)))))))"

definition translate_text ::
  "world \<Rightarrow> environment \<Rightarrow> string \<Rightarrow> string \<Rightarrow> string \<Rightarrow> string option \<times> effect list" where
  "translate_text w env text source_lang target_lang =
     (let body = request_body (translation_prompt target_lang text);
          call = Call_invoke_model (BEDROCK_MODEL_ID env) body
      in case extract_translation w (invoke_model w (BEDROCK_MODEL_ID env) body) of
           Inr translated_text \<Rightarrow> (Some translated_text, [call])
         | Inl e \<Rightarrow> (None, [call, Log_error_exn ''Translation failed: '' e]))"

section \<open>process\_message\_event\<close>

text \<open>
  The check for translation triggers on the trimmed message text: the text to translate
  with the source and the target language, or \<open>None\<close> where the program returns \<open>None\<close>.
\<close>

definition translation_trigger :: "string \<Rightarrow> (string \<times> string \<times> string) option" where
  "translation_trigger message_text =
     (if py_in ''#e2j'' (py_lower message_text)
      then Some (py_strip (py_replace (py_replace message_text ''#e2j'' []) ''#E2J'' []),
                 ''en'', ''ja'')
      else if py_in ''#j2e'' (py_lower message_text)
      then Some (py_strip (py_replace (py_replace message_text ''#j2e'' []) ''#J2E'' []),
                 ''ja'', ''en'')
      else None)"

definition reply_template :: "string \<Rightarrow> string \<Rightarrow> string \<Rightarrow> string \<Rightarrow> string" where
  "reply_template user_display_name source_lang target_lang translated_text =
     ''Message from @'' @ user_display_name @ '': ('' @ source_lang @ '' -> '' @ target_lang
       @ ''):'' @ [CHR 0x0A] @ ''--------------------'' @ [CHR 0x0A] @ translated_text"

text \<open>
  The body of the \<open>try\<close> block for a text message with the client present: the profile
  lookup is the one step that can raise.
\<close>

definition process_text ::
  "world \<Rightarrow> environment \<Rightarrow> line_bot_client \<Rightarrow> message_event \<Rightarrow> string
     \<Rightarrow> (exn + string option) \<times> effect list" where
  "process_text w env api event text =
     (case get_profile w api (user_id event) of
        Inl e \<Rightarrow> (Inl e, [Call_get_profile (user_id event)])
      | Inr user_display_name \<Rightarrow>
          (case translation_trigger (py_strip text) of
             None \<Rightarrow> (Inr None, [Call_get_profile (user_id event)])
           | Some (text_to_translate, source_lang, target_lang) \<Rightarrow>
               if text_to_translate \<noteq> []
               then
                 (let (translated_text, effs) =
                        translate_text w env text_to_translate source_lang target_lang
                  in (Inr (Some (reply_template user_display_name source_lang target_lang
                                   (py_format translated_text))),
                      [Call_get_profile (user_id event),
                       Log_info (''Translating from '' @ source_lang @ '' to '' @ target_lang
                                   @ '': '' @ text_to_translate)] @ effs))
               else (Inr None, [Call_get_profile (user_id event)])))"

definition process_message_event ::
  "world \<Rightarrow> environment \<Rightarrow> message_event \<Rightarrow> string option \<times> effect list" where
  "process_message_event w env event =
     (case message event of
        OtherMessage \<Rightarrow> (None, [])
      | TextMessage text \<Rightarrow>
          (case line_bot_api env of
             None \<Rightarrow> (Some ''Bot configuration error'', [Log_error ''LINE Bot API not initialized''])
           | Some api \<Rightarrow>
               (case process_text w env api event text of
                  (Inr reply, effs) \<Rightarrow> (reply, effs)
                | (Inl e, effs) \<Rightarrow>
                    (Some ''An error occurred while processing your message.'',
                     effs @ [Log_error_exn ''Error processing message: '' e]))))"

section \<open>lambda\_handler\<close>

text \<open>
  The callback registered for text messages: a reply that is \<open>None\<close> or empty is false and
  nothing is sent; an exception of the reply call is not caught here.
\<close>

definition handle_message ::
  "world \<Rightarrow> environment \<Rightarrow> line_bot_client \<Rightarrow> message_event \<Rightarrow> (exn + unit) \<times> effect list" where
  "handle_message w env api event =
     (let (reply_text, effs) = process_message_event w env event
      in case reply_text of
           None \<Rightarrow> (Inr (), effs)
         | Some text \<Rightarrow>
             if text = [] then (Inr (), effs)
             else (reply_message w api (reply_token event) text,
                   effs @ [Call_reply_message (reply_token event) text]))"

text \<open>
  The dispatch loop of \<open>handler.handle\<close>: the callback runs for each message event with a
  text message, in order; the first exception ends the loop.
\<close>

fun dispatch ::
  "world \<Rightarrow> environment \<Rightarrow> line_bot_client \<Rightarrow> webhook_event list \<Rightarrow> (exn + unit) \<times> effect list" where
  "dispatch w env api [] = (Inr (), [])"
| "dispatch w env api (OtherEvent # events) = dispatch w env api events"
| "dispatch w env api (MessageEvent event # events) =
     (case message event of
        OtherMessage \<Rightarrow> dispatch w env api events
      | TextMessage text \<Rightarrow>
          (case handle_message w env api event of
             (Inl e, effs) \<Rightarrow> (Inl e, effs)
           | (Inr u, effs) \<Rightarrow>
               (let (r, effs') = dispatch w env api events in (r, effs @ effs'))))"

definition handle ::
  "world \<Rightarrow> environment \<Rightarrow> line_bot_client \<Rightarrow> webhook_handler \<Rightarrow> json \<Rightarrow> json
     \<Rightarrow> (exn + unit) \<times> effect list" where
  "handle w env api h body signature =
     (case parse_webhook w h body signature of
        Inl e \<Rightarrow> (Inl e, [Call_handle body signature])
      | Inr events \<Rightarrow>
          (let (r, effs) = dispatch w env api events in (r, Call_handle body signature # effs)))"

record response =
  statusCode :: int
  body :: string

definition configuration_error :: string where
  "configuration_error = ''LINE Bot not properly configured. Check environment variables.''"

definition invalid_signature :: string where
  "invalid_signature =
     ''Invalid signature. Please check your channel access token channel secret.''"

definition lambda_handler ::
  "world \<Rightarrow> environment \<Rightarrow> json \<Rightarrow> (exn + response) \<times> effect list" where
  "lambda_handler w env event =
     (case (line_bot_api env, handler env) of
        (Some api, Some h) \<Rightarrow>
          (case bind_exn (py_getitem event ''headers'') (\<lambda>hs. py_getitem hs ''x-line-signature'') of
             Inl e \<Rightarrow> (Inl e, [Log_info_event event])
           | Inr signature \<Rightarrow>
               (case py_getitem event ''body'' of
                  Inl e \<Rightarrow> (Inl e, [Log_info_event event])
                | Inr event_body \<Rightarrow>
                    (case handle w env api h event_body signature of
                       (Inr u, effs) \<Rightarrow>
                         (Inr \<lparr>statusCode = 200, body = json_dumps ''OK''\<rparr>,
                          Log_info_event event # effs)
                     | (Inl InvalidSignatureError, effs) \<Rightarrow>
                         (Inr \<lparr>statusCode = 502, body = json_dumps invalid_signature\<rparr>,
                          Log_info_event event # effs @ [Log_error invalid_signature])
                     | (Inl e, effs) \<Rightarrow> (Inl e, Log_info_event event # effs))))
      | _ \<Rightarrow>
          (Inr \<lparr>statusCode = 500, body = json_dumps configuration_error\<rparr>,
           [Log_info_event event, Log_error configuration_error]))"

section \<open>Example inputs\<close>

text \<open>
  Collaborators that give the same answer whatever they are asked, an environment with the
  four variables set, a text message event and a model response of the expected shape.
\<close>

definition constant_world ::
  "exn + webhook_event list \<Rightarrow> exn + string \<Rightarrow> exn + unit \<Rightarrow> exn + string \<Rightarrow> exn + json \<Rightarrow> world" where
  "constant_world events profile sent response parsed =
     \<lparr>parse_webhook = (\<lambda>h b s. events),
      get_profile = (\<lambda>api uid. profile),
      reply_message = (\<lambda>api token text. sent),
      invoke_model = (\<lambda>model_id b. response),
      json_loads = (\<lambda>raw. parsed)\<rparr>"

definition example_environment :: environment where
  "example_environment =
     \<lparr>LINE_CHANNEL_ACCESS_TOKEN = Some ''token'',
      LINE_CHANNEL_SECRET = Some ''secret'',
      BEDROCK_REGION = Some ''ap-northeast-1'',
      BEDROCK_MODEL_ID = Some ''apac.amazon.nova-pro-v1:0''\<rparr>"

definition text_event :: "string \<Rightarrow> message_event" where
  "text_event text = \<lparr>user_id = Some ''U1'', message = TextMessage text, reply_token = ''R1''\<rparr>"

definition model_response :: "string \<Rightarrow> json" where
  "model_response text =
     JObj [(''output'',
            JObj [(''message'', JObj [(''content'', JArr [JObj [(''text'', JStr text)]])])])]"

definition konnichiwa :: string where
  "konnichiwa =
     [CHR 0xE3, CHR 0x81, CHR 0x93, CHR 0xE3, CHR 0x82, CHR 0x93, CHR 0xE3, CHR 0x81, CHR 0xAB,
      CHR 0xE3, CHR 0x81, CHR 0xA1, CHR 0xE3, CHR 0x81, CHR 0xAF]"

definition example_request :: json where
  "example_request =
     JObj [(''headers'', JObj [(''x-line-signature'', JStr ''signature'')]),
           (''body'', JStr ''{}'')]"

definition environment_without_model :: environment where
  "environment_without_model =
     \<lparr>LINE_CHANNEL_ACCESS_TOKEN = Some ''token'',
      LINE_CHANNEL_SECRET = Some ''secret'',
      BEDROCK_REGION = Some ''ap-northeast-1'',
      BEDROCK_MODEL_ID = None\<rparr>"

definition environment_without_token :: environment where
  "environment_without_token =
     \<lparr>LINE_CHANNEL_ACCESS_TOKEN = None,
      LINE_CHANNEL_SECRET = Some ''secret'',
      BEDROCK_REGION = Some ''ap-northeast-1'',
      BEDROCK_MODEL_ID = Some ''apac.amazon.nova-pro-v1:0''\<rparr>"

definition request_without_signature :: json where
  "request_without_signature = JObj [(''headers'', JObj []), (''body'', JStr ''{}'')]"

section \<open>Properties of the string operations\<close>

lemma disjoint_subset_Nil:
  assumes "set p \<subseteq> set w" and "set w \<inter> set q = {}" and "set p \<subseteq> set q"
  shows "p = []"
proof (cases p)
  case Nil
  then show ?thesis .
next
  case (Cons x xs)
  then have "x \<in> set p" by simp
  with assms(1) assms(3) have "x \<in> set w" "x \<in> set q" by (simp_all add: subsetD)
  with assms(2) have False by (simp add: disjoint_iff)
  then show ?thesis ..
qed

lemma sublist_past_disjoint:
  assumes disj: "set w \<inter> set p = {}" and sub: "sublist p (w @ s')"
  shows "sublist p s'"
proof -
  from sub have "sublist p w \<or> sublist p s'
      \<or> (\<exists>p1 p2. p = p1 @ p2 \<and> suffix p1 w \<and> prefix p2 s')"
    by (simp only: sublist_append)
  then consider "sublist p w" | "sublist p s'"
    | p1 p2 where "p = p1 @ p2" "suffix p1 w" "prefix p2 s'"
    by blast
  then show ?thesis
  proof cases
    case 1
    then have "set p \<subseteq> set w" by (rule set_mono_sublist)
    then have "p = []" using disj by (rule disjoint_subset_Nil) simp
    then show ?thesis by simp
  next
    case 2
    then show ?thesis .
  next
    case 3
    from 3(2) have "set p1 \<subseteq> set w" by (rule set_mono_suffix)
    moreover from 3(1) have "set p1 \<subseteq> set p" by simp
    ultimately have "p1 = []" using disj by (simp add: disjoint_subset_Nil)
    with 3 show ?thesis by simp
  qed
qed

lemma drop_leading_suffix: "suffix (drop_leading ws s) s"
proof (induction ws s rule: drop_leading.induct)
  case (1 ws s)
  show ?case
  proof (cases "find (\<lambda>w. w \<noteq> [] \<and> prefix w s) ws")
    case None
    then show ?thesis by (simp add: drop_leading.simps [of ws s])
  next
    case (Some w)
    with 1 have "suffix (drop_leading ws (drop (length w) s)) (drop (length w) s)"
      by simp
    moreover have "suffix (drop (length w) s) s"
      by (rule suffix_drop)
    ultimately have "suffix (drop_leading ws (drop (length w) s)) s"
      by (rule suffix_order.trans)
    with Some show ?thesis by (simp add: drop_leading.simps [of ws s])
  qed
qed

lemma drop_leading_keeps_sublist:
  assumes "\<forall>w \<in> set ws. set w \<inter> set p = {}" and "sublist p s"
  shows "sublist p (drop_leading ws s)"
  using assms
proof (induction ws s rule: drop_leading.induct)
  case (1 ws s)
  note disjoint = \<open>\<forall>w \<in> set ws. set w \<inter> set p = {}\<close>
  note sub = \<open>sublist p s\<close>
  show ?case
  proof (cases "find (\<lambda>w. w \<noteq> [] \<and> prefix w s) ws")
    case None
    with sub show ?thesis by (simp add: drop_leading.simps [of ws s])
  next
    case (Some w)
    then have w: "w \<in> set ws" "prefix w s"
      by (auto simp: find_Some_iff)
    then obtain s' where s: "s = w @ s'"
      by (auto simp: prefix_def)
    from disjoint w(1) have disj: "set w \<inter> set p = {}"
      by (rule bspec)
    from sub s have "sublist p (w @ s')" by simp
    with disj have "sublist p s'" by (rule sublist_past_disjoint)
    with s have "sublist p (drop (length w) s)" by simp
    with Some disjoint have "sublist p (drop_leading ws (drop (length w) s))"
      by (rule "1.IH")
    with Some show ?thesis by (simp add: drop_leading.simps [of ws s])
  qed
qed

lemma py_rstrip_prefix: "prefix (py_rstrip t) t"
proof -
  have "suffix (drop_leading (map rev py_whitespace) (rev t)) (rev t)"
    by (rule drop_leading_suffix)
  then show ?thesis
    by (simp add: py_rstrip_def suffix_to_prefix)
qed

lemma py_strip_sublist: "sublist (py_strip s) s"
proof -
  have "suffix (py_lstrip s) s"
    by (simp add: py_lstrip_def drop_leading_suffix)
  then have "sublist (py_lstrip s) s"
    by (rule suffix_imp_sublist)
  moreover have "sublist (py_rstrip (py_lstrip s)) (py_lstrip s)"
    by (rule prefix_imp_sublist) (rule py_rstrip_prefix)
  ultimately show ?thesis
    unfolding py_strip_def by (rule sublist_order.order.trans [rotated])
qed

lemma py_strip_keeps_sublist:
  assumes "\<forall>w \<in> set py_whitespace. set w \<inter> set p = {}" and "sublist p s"
  shows "sublist p (py_strip s)"
proof -
  have l: "sublist p (py_lstrip s)"
    unfolding py_lstrip_def using assms by (rule drop_leading_keeps_sublist)
  have "\<forall>w \<in> set (map rev py_whitespace). set w \<inter> set (rev p) = {}"
    using assms(1) by simp
  moreover from l have "sublist (rev p) (rev (py_lstrip s))" by simp
  ultimately have "sublist (rev p) (drop_leading (map rev py_whitespace) (rev (py_lstrip s)))"
    by (rule drop_leading_keeps_sublist)
  then show ?thesis
    by (simp add: py_strip_def py_rstrip_def sublist_rev_left)
qed

lemma py_replace_no_prefix:
  assumes "old \<noteq> []" and "\<not> prefix old (x # xs)"
  shows "py_replace (x # xs) old new = x # py_replace xs old new"
  using assms by (cases old) auto

lemma py_replace_prefix:
  assumes "old \<noteq> []" and "prefix old s"
  shows "py_replace s old new = new @ py_replace (drop (length old) s) old new"
proof -
  from assms obtain c cs x xs where "old = c # cs" "s = x # xs"
    by (cases old; cases s) auto
  with assms(2) show ?thesis by auto
qed

lemma py_replace_skip:
  assumes "old \<noteq> []"
    and "\<forall>q \<in> set (suffixes p). q \<noteq> [] \<longrightarrow> \<not> prefix old q \<and> \<not> prefix q old"
  shows "py_replace (p @ ys) old new = p @ py_replace ys old new"
  using assms(2)
proof (induction p)
  case Nil
  then show ?case by simp
next
  case (Cons x p)
  from assms(1) obtain c cs where old: "old = c # cs"
    by (cases old) auto
  have "x # p \<in> set (suffixes (x # p))" by simp
  with Cons.prems have no: "\<not> prefix old (x # p)" "\<not> prefix (x # p) old"
    by blast+
  have "\<not> prefix old ((x # p) @ ys)"
  proof
    assume "prefix old ((x # p) @ ys)"
    moreover have "prefix (x # p) ((x # p) @ ys)" by simp
    ultimately have "prefix old (x # p) \<or> prefix (x # p) old"
      by (rule prefix_same_cases)
    with no show False by simp
  qed
  with assms(1) have "py_replace (x # (p @ ys)) old new = x # py_replace (p @ ys) old new"
    by (intro py_replace_no_prefix) simp_all
  moreover have "py_replace (p @ ys) old new = p @ py_replace ys old new"
  proof (rule Cons.IH)
    show "\<forall>q \<in> set (suffixes p). q \<noteq> [] \<longrightarrow> \<not> prefix old q \<and> \<not> prefix q old"
      using Cons.prems by simp
  qed
  ultimately show ?case by simp
qed

lemma py_replace_keeps_sublist:
  assumes "old \<noteq> []"
    and "\<forall>q \<in> set (suffixes p). q \<noteq> [] \<longrightarrow> \<not> prefix old q \<and> \<not> prefix q old"
    and "\<forall>u \<in> set (suffixes old). u \<noteq> [] \<longrightarrow> \<not> prefix u p \<and> \<not> prefix p u"
    and "sublist p s"
  shows "sublist p (py_replace s old new)"
  using assms
proof (induction s old new rule: py_replace.induct)
  case (1 s new)
  then show ?case by simp
next
  case (2 c cs new)
  then show ?case by simp
next
  case (3 x xs c cs new)
  let ?old = "c # cs" and ?s = "x # xs"
  note skip = \<open>\<forall>q \<in> set (suffixes p). q \<noteq> [] \<longrightarrow> \<not> prefix ?old q \<and> \<not> prefix q ?old\<close>
  note apart = \<open>\<forall>u \<in> set (suffixes ?old). u \<noteq> [] \<longrightarrow> \<not> prefix u p \<and> \<not> prefix p u\<close>
  from \<open>sublist p ?s\<close> obtain ps ss where s: "?s = ps @ p @ ss"
    by (auto simp: sublist_def)
  show ?case
  proof (cases ps)
    case Nil
    with s have "py_replace ?s ?old new = py_replace (p @ ss) ?old new"
      by simp
    also have "\<dots> = p @ py_replace ss ?old new"
      using _ skip by (rule py_replace_skip) simp
    finally show ?thesis by simp
  next
    case (Cons y ps')
    with s have xs: "xs = ps' @ p @ ss" by simp
    show ?thesis
    proof (cases "prefix ?old ?s")
      case False
      have "sublist p xs" by (simp add: xs)
      with False skip apart have "sublist p (py_replace xs ?old new)"
        by (intro "3.IH"(2)) simp_all
      then have "sublist p (x # py_replace xs ?old new)"
        by (simp add: sublist_Cons_right)
      moreover from False have "py_replace ?s ?old new = x # py_replace xs ?old new"
        by (intro py_replace_no_prefix) simp_all
      ultimately show ?thesis by (simp only:)
    next
      case True
      then obtain rest where rest: "?s = ?old @ rest"
        by (auto simp: prefix_def)
      then have drop: "drop (length ?old) ?s = rest"
        by (metis append_eq_conv_conj)
      define q where "q = p @ ss"
      from rest s have "?old @ rest = ps @ q" by (simp add: q_def)
      then have "\<exists>us. (?old = ps @ us \<and> us @ rest = q) \<or> (?old @ us = ps \<and> rest = us @ q)"
        by (simp only: append_eq_append_conv2)
      then obtain us where
        "(?old = ps @ us \<and> us @ rest = q) \<or> (?old @ us = ps \<and> rest = us @ q)" ..
      then have "sublist p rest"
      proof
        assume a: "?old = ps @ us \<and> us @ rest = q"
        show ?thesis
        proof (cases us)
          case Nil
          with a show ?thesis by (simp add: q_def)
        next
          case (Cons u us')
          from a have "suffix us ?old" by (simp add: suffix_def)
          then have "us \<in> set (suffixes ?old)" by (simp only: in_set_suffixes)
          with apart Cons have no: "\<not> prefix us p" "\<not> prefix p us" by blast+
          from a have "q = us @ rest" by simp
          then have "prefix us q" by simp
          moreover have "prefix p q" by (simp add: q_def)
          ultimately have "prefix us q" "prefix p q" .
          then have "prefix us p \<or> prefix p us" by (rule prefix_same_cases)
          with no show ?thesis by simp
        qed
      next
        assume "?old @ us = ps \<and> rest = us @ q"
        then show ?thesis by (simp add: q_def)
      qed
      with drop have "sublist p (drop (length ?old) ?s)" by simp
      with True skip apart have "sublist p (py_replace (drop (length ?old) ?s) ?old new)"
        by (intro "3.IH"(1)) simp_all
      then have "sublist p (new @ py_replace (drop (length ?old) ?s) ?old new)"
        by (metis sublist_order.order.trans sublist_append_leftI)
      moreover from True have "py_replace ?s ?old new
          = new @ py_replace (drop (length ?old) ?s) ?old new"
        by (intro py_replace_prefix) simp_all
      ultimately show ?thesis by (simp only:)
    qed
  qed
qed

lemma whitespace_apart_e2j: "\<forall>w \<in> set py_whitespace. set w \<inter> set ''#e2j'' = {}"
  by (simp add: py_whitespace_def)

lemma whitespace_apart_j2e: "\<forall>w \<in> set py_whitespace. set w \<inter> set ''#j2e'' = {}"
  by (simp add: py_whitespace_def)

lemma j2e_survives_e2j: "sublist ''#j2e'' s \<Longrightarrow> sublist ''#j2e'' (py_replace s ''#e2j'' new)"
  by (rule py_replace_keeps_sublist) simp_all

lemma j2e_survives_E2J: "sublist ''#j2e'' s \<Longrightarrow> sublist ''#j2e'' (py_replace s ''#E2J'' new)"
  by (rule py_replace_keeps_sublist) simp_all

section \<open>The message handler unfolded\<close>

lemma process_message_event_text:
  assumes "line_bot_api env = Some api"
    and "message event = TextMessage text"
    and "get_profile w api (user_id event) = Inr user_display_name"
  shows "process_message_event w env event =
     (case translation_trigger (py_strip text) of
        None \<Rightarrow> (None, [Call_get_profile (user_id event)])
      | Some (text_to_translate, source_lang, target_lang) \<Rightarrow>
          if text_to_translate \<noteq> []
          then (Some (reply_template user_display_name source_lang target_lang
                  (py_format (fst (translate_text w env text_to_translate source_lang
                     target_lang)))),
                [Call_get_profile (user_id event),
                 Log_info (''Translating from '' @ source_lang @ '' to '' @ target_lang
                             @ '': '' @ text_to_translate)]
                @ snd (translate_text w env text_to_translate source_lang target_lang))
          else (None, [Call_get_profile (user_id event)]))"
  using assms
  by (simp add: process_message_event_def process_text_def split: prod.splits option.splits)

section \<open>The reply template\<close>

text \<open>
  Claim C7. When a trigger matched, the text to translate is not empty and the translation
  succeeds, the reply is
  \<open>Message from @<name>: (<source> -> <target>):\<close>, a line of twenty dashes and the
  translated text, separated by newlines. The example of the claim (text
  \<open>#j2e\<close> followed by a Japanese greeting, sender Bob, translation \<open>Hello\<close>) is the
  witness.
\<close>

theorem C7_reply_template:
  assumes "line_bot_api env = Some api"
    and "message event = TextMessage text"
    and "get_profile w api (user_id event) = Inr user_display_name"
    and "translation_trigger (py_strip text) = Some (text_to_translate, source_lang, target_lang)"
    and "text_to_translate \<noteq> []"
    and "fst (translate_text w env text_to_translate source_lang target_lang) = Some translated_text"
  shows "fst (process_message_event w env event) =
     Some (''Message from @'' @ user_display_name @ '': ('' @ source_lang @ '' -> ''
           @ target_lang @ ''):'' @ [CHR 0x0A] @ ''--------------------'' @ [CHR 0x0A]
           @ translated_text)"
  using assms(4-6)
  by (simp add: process_message_event_text [OF assms(1-3)] reply_template_def py_format_def)

theorem C7_reply_template_witness:
  "line_bot_api example_environment = Some (LineBotApi ''token'')
   \<and> message (text_event (''#j2e '' @ konnichiwa)) = TextMessage (''#j2e '' @ konnichiwa)
   \<and> get_profile (constant_world (Inr []) (Inr ''Bob'') (Inr ()) (Inr ''{}'')
        (Inr (model_response ''Hello''))) (LineBotApi ''token'')
        (user_id (text_event (''#j2e '' @ konnichiwa))) = Inr ''Bob''
   \<and> translation_trigger (py_strip (''#j2e '' @ konnichiwa)) = Some (konnichiwa, ''ja'', ''en'')
   \<and> konnichiwa \<noteq> []
   \<and> fst (translate_text (constant_world (Inr []) (Inr ''Bob'') (Inr ()) (Inr ''{}'')
        (Inr (model_response ''Hello''))) example_environment konnichiwa ''ja'' ''en'')
      = Some ''Hello''
   \<and> fst (process_message_event (constant_world (Inr []) (Inr ''Bob'') (Inr ()) (Inr ''{}'')
        (Inr (model_response ''Hello''))) example_environment
        (text_event (''#j2e '' @ konnichiwa)))
      = Some (''Message from @Bob: (ja -> en):'' @ [CHR 0x0A] @ ''--------------------''
              @ [CHR 0x0A] @ ''Hello'')"
proof -
  let ?w = "constant_world (Inr []) (Inr ''Bob'') (Inr ()) (Inr ''{}'')
        (Inr (model_response ''Hello''))"
  have 1: "line_bot_api example_environment = Some (LineBotApi ''token'')"
    by code_simp
  have 2: "message (text_event (''#j2e '' @ konnichiwa)) = TextMessage (''#j2e '' @ konnichiwa)"
    by (simp add: text_event_def)
  have 3: "get_profile ?w (LineBotApi ''token'') (user_id (text_event (''#j2e '' @ konnichiwa)))
      = Inr ''Bob''"
    by (simp add: constant_world_def)
  have 4: "translation_trigger (py_strip (''#j2e '' @ konnichiwa)) = Some (konnichiwa, ''ja'', ''en'')"
    by code_simp
  have 5: "konnichiwa \<noteq> []"
    by (simp add: konnichiwa_def)
  have 6: "fst (translate_text ?w example_environment konnichiwa ''ja'' ''en'') = Some ''Hello''"
    by code_simp
  from C7_reply_template [OF 1 2 3 4 5 6] 1 2 3 4 5 6 show ?thesis
    by simp
qed

section \<open>A failed translation\<close>

text \<open>
  Claim C9. When a trigger matched and the translation client returns its failure value
  \<open>None\<close>, the reply is still the template of a successful translation, with the text
  \<open>None\<close> where the translated text would be; no separate error message is composed.
\<close>

theorem C9_failed_translation_interpolated:
  assumes "line_bot_api env = Some api"
    and "message event = TextMessage text"
    and "get_profile w api (user_id event) = Inr user_display_name"
    and "translation_trigger (py_strip text) = Some (text_to_translate, source_lang, target_lang)"
    and "text_to_translate \<noteq> []"
    and "fst (translate_text w env text_to_translate source_lang target_lang) = None"
  shows "fst (process_message_event w env event) =
     Some (''Message from @'' @ user_display_name @ '': ('' @ source_lang @ '' -> ''
           @ target_lang @ ''):'' @ [CHR 0x0A] @ ''--------------------'' @ [CHR 0x0A]
           @ ''None'')"
  using assms(4-6)
  by (simp add: process_message_event_text [OF assms(1-3)] reply_template_def py_format_def)

theorem C9_failed_translation_interpolated_witness:
  "line_bot_api example_environment = Some (LineBotApi ''token'')
   \<and> message (text_event ''Hello #E2J'') = TextMessage ''Hello #E2J''
   \<and> get_profile (constant_world (Inr []) (Inr ''Alice'') (Inr ())
        (Inl (OtherException ''ClientError'')) (Inl (OtherException ''JSONDecodeError'')))
        (LineBotApi ''token'') (user_id (text_event ''Hello #E2J'')) = Inr ''Alice''
   \<and> translation_trigger (py_strip ''Hello #E2J'') = Some (''Hello'', ''en'', ''ja'')
   \<and> ''Hello'' \<noteq> []
   \<and> fst (translate_text (constant_world (Inr []) (Inr ''Alice'') (Inr ())
        (Inl (OtherException ''ClientError'')) (Inl (OtherException ''JSONDecodeError'')))
        example_environment ''Hello'' ''en'' ''ja'') = None
   \<and> fst (process_message_event (constant_world (Inr []) (Inr ''Alice'') (Inr ())
        (Inl (OtherException ''ClientError'')) (Inl (OtherException ''JSONDecodeError'')))
        example_environment (text_event ''Hello #E2J''))
      = Some (''Message from @Alice: (en -> ja):'' @ [CHR 0x0A] @ ''--------------------''
              @ [CHR 0x0A] @ ''None'')"
proof -
  let ?w = "constant_world (Inr []) (Inr ''Alice'') (Inr ())
        (Inl (OtherException ''ClientError'')) (Inl (OtherException ''JSONDecodeError''))"
  have 1: "line_bot_api example_environment = Some (LineBotApi ''token'')"
    by code_simp
  have 2: "message (text_event ''Hello #E2J'') = TextMessage ''Hello #E2J''"
    by (simp add: text_event_def)
  have 3: "get_profile ?w (LineBotApi ''token'') (user_id (text_event ''Hello #E2J''))
      = Inr ''Alice''"
    by (simp add: constant_world_def)
  have 4: "translation_trigger (py_strip ''Hello #E2J'') = Some (''Hello'', ''en'', ''ja'')"
    by code_simp
  have 5: "''Hello'' \<noteq> []"
    by simp
  have 6: "fst (translate_text ?w example_environment ''Hello'' ''en'' ''ja'') = None"
    by code_simp
  from C9_failed_translation_interpolated [OF 1 2 3 4 5 6] 1 2 3 4 5 6 show ?thesis
    by simp
qed

section \<open>A rejected signature\<close>

text \<open>
  Claim C10. With the messaging client and the webhook handler configured and the signature
  header and the body present in the event, a payload whose signature the verifier rejects
  gives the response with status 502 and the invalid-signature message; the only collaborator
  called is the handler itself: no profile lookup, no translation, no reply.
\<close>

theorem C10_invalid_signature:
  assumes "line_bot_api env = Some api"
    and "handler env = Some h"
    and "py_getitem event ''headers'' = Inr headers"
    and "py_getitem headers ''x-line-signature'' = Inr signature"
    and "py_getitem event ''body'' = Inr event_body"
    and "parse_webhook w h event_body signature = Inl InvalidSignatureError"
  shows "lambda_handler w env event =
     (Inr \<lparr>statusCode = 502,
           body = json_dumps
             ''Invalid signature. Please check your channel access token channel secret.''\<rparr>,
      [Log_info_event event, Call_handle event_body signature,
       Log_error
         ''Invalid signature. Please check your channel access token channel secret.''])"
  using assms
  by (simp add: lambda_handler_def handle_def bind_exn_def invalid_signature_def)

theorem C10_invalid_signature_witness:
  "line_bot_api example_environment = Some (LineBotApi ''token'')
   \<and> handler example_environment = Some (WebhookHandler ''secret'')
   \<and> py_getitem example_request ''headers'' = Inr (JObj [(''x-line-signature'', JStr ''signature'')])
   \<and> py_getitem (JObj [(''x-line-signature'', JStr ''signature'')]) ''x-line-signature''
       = Inr (JStr ''signature'')
   \<and> py_getitem example_request ''body'' = Inr (JStr ''{}'')
   \<and> parse_webhook (constant_world (Inl InvalidSignatureError) (Inr ''Bob'') (Inr ())
         (Inr ''{}'') (Inr (model_response ''Hello'')))
         (WebhookHandler ''secret'') (JStr ''{}'') (JStr ''signature'')
       = Inl InvalidSignatureError
   \<and> lambda_handler (constant_world (Inl InvalidSignatureError) (Inr ''Bob'') (Inr ())
         (Inr ''{}'') (Inr (model_response ''Hello''))) example_environment example_request
       = (Inr \<lparr>statusCode = 502,
             body = json_dumps
               ''Invalid signature. Please check your channel access token channel secret.''\<rparr>,
          [Log_info_event example_request,
           Call_handle (JStr ''{}'') (JStr ''signature''),
           Log_error
             ''Invalid signature. Please check your channel access token channel secret.''])"
proof -
  let ?w = "constant_world (Inl InvalidSignatureError) (Inr ''Bob'') (Inr ())
         (Inr ''{}'') (Inr (model_response ''Hello''))"
  have 1: "line_bot_api example_environment = Some (LineBotApi ''token'')"
    by code_simp
  have 2: "handler example_environment = Some (WebhookHandler ''secret'')"
    by code_simp
  have 3: "py_getitem example_request ''headers''
      = Inr (JObj [(''x-line-signature'', JStr ''signature'')])"
    by (simp add: example_request_def)
  have 4: "py_getitem (JObj [(''x-line-signature'', JStr ''signature'')]) ''x-line-signature''
       = Inr (JStr ''signature'')"
    by simp
  have 5: "py_getitem example_request ''body'' = Inr (JStr ''{}'')"
    by (simp add: example_request_def)
  have 6: "parse_webhook ?w (WebhookHandler ''secret'') (JStr ''{}'')
      (JStr ''signature'') = Inl InvalidSignatureError"
    by (simp add: constant_world_def)
  from C10_invalid_signature [OF 1 2 3 4 5 6] 1 2 3 4 5 6 show ?thesis
    by simp
qed

section \<open>Missing configuration\<close>

lemma lambda_handler_unconfigured:
  assumes "line_bot_api env = None \<or> handler env = None"
  shows "lambda_handler w env event =
     (Inr \<lparr>statusCode = 500, body = json_dumps configuration_error\<rparr>,
      [Log_info_event event, Log_error configuration_error])"
  using assms by (auto simp: lambda_handler_def split: option.splits)

text \<open>
  Claim C1, as amended. When the access token or the signing secret is unset or empty, the
  handler returns status 500 with the configuration-error message and calls no
  collaborator. The handler does not look at the region or at the model identifier.
\<close>

theorem C1_missing_line_configuration:
  assumes "LINE_CHANNEL_ACCESS_TOKEN env = None \<or> LINE_CHANNEL_ACCESS_TOKEN env = Some []
    \<or> LINE_CHANNEL_SECRET env = None \<or> LINE_CHANNEL_SECRET env = Some []"
  shows "fst (lambda_handler w env event) =
      Inr \<lparr>statusCode = 500,
           body = json_dumps ''LINE Bot not properly configured. Check environment variables.''\<rparr>
    \<and> filter is_call (snd (lambda_handler w env event)) = []"
proof -
  from assms have "line_bot_api env = None \<or> handler env = None"
    by (auto simp: line_bot_api_def handler_def)
  then show ?thesis
    by (simp add: lambda_handler_unconfigured configuration_error_def)
qed

theorem C1_missing_line_configuration_witness:
  "(LINE_CHANNEL_ACCESS_TOKEN environment_without_token = None
      \<or> LINE_CHANNEL_ACCESS_TOKEN environment_without_token = Some []
      \<or> LINE_CHANNEL_SECRET environment_without_token = None
      \<or> LINE_CHANNEL_SECRET environment_without_token = Some [])
   \<and> fst (lambda_handler (constant_world (Inr []) (Inr ''Bob'') (Inr ()) (Inr ''{}'')
          (Inr (model_response ''Hello''))) environment_without_token example_request) =
      Inr \<lparr>statusCode = 500,
           body = json_dumps ''LINE Bot not properly configured. Check environment variables.''\<rparr>
   \<and> filter is_call (snd (lambda_handler (constant_world (Inr []) (Inr ''Bob'') (Inr ())
          (Inr ''{}'') (Inr (model_response ''Hello''))) environment_without_token
          example_request)) = []"
proof -
  have 1: "LINE_CHANNEL_ACCESS_TOKEN environment_without_token = None
      \<or> LINE_CHANNEL_ACCESS_TOKEN environment_without_token = Some []
      \<or> LINE_CHANNEL_SECRET environment_without_token = None
      \<or> LINE_CHANNEL_SECRET environment_without_token = Some []"
    by (simp add: environment_without_token_def)
  from C1_missing_line_configuration [OF 1] 1 show ?thesis
    by simp
qed

text \<open>
  The claim as stated fails: with the model identifier unset and the other three variables
  set, a request with a valid signature and no events is answered with status 200, after
  the call to the webhook handler.
\<close>

theorem C1_counterexample:
  "BEDROCK_MODEL_ID environment_without_model = None
   \<and> lambda_handler (constant_world (Inr []) (Inr ''Bob'') (Inr ()) (Inr ''{}'')
        (Inr (model_response ''Hello''))) environment_without_model example_request
     = (Inr \<lparr>statusCode = 200, body = [CHR 0x22, CHR ''O'', CHR ''K'', CHR 0x22]\<rparr>,
        [Log_info_event example_request, Call_handle (JStr ''{}'') (JStr ''signature'')])"
  by code_simp

section \<open>Messages without a trigger\<close>

lemma handle_message_no_reply:
  assumes "process_message_event w env event = (None, effs)"
  shows "handle_message w env api event = (Inr (), effs)"
  using assms by (simp add: handle_message_def)

lemma py_in_lower_strip:
  assumes "py_in p (py_lower (py_strip text))"
  shows "py_in p (py_lower text)"
proof -
  have "sublist (py_strip text) text"
    by (rule py_strip_sublist)
  then have "sublist (py_lower (py_strip text)) (py_lower text)"
    unfolding py_lower_def by (rule map_mono_sublist)
  with assms show ?thesis
    unfolding py_in_def by (rule sublist_order.order.trans)
qed

text \<open>
  Claim C6, as amended. For a text message that contains neither \<open>#e2j\<close> nor \<open>#j2e\<close> in any
  mix of upper and lower case, when the messaging client is configured and the profile lookup
  of the sender succeeds, \<open>process_message_event\<close> returns \<open>None\<close> and the callback sends
  nothing: the profile lookup is the only collaborator call.
\<close>

theorem C6_no_trigger_no_reply:
  assumes "line_bot_api env = Some api"
    and "message event = TextMessage text"
    and "get_profile w api (user_id event) = Inr user_display_name"
    and "\<not> py_in ''#e2j'' (py_lower text)"
    and "\<not> py_in ''#j2e'' (py_lower text)"
  shows "process_message_event w env event = (None, [Call_get_profile (user_id event)])
    \<and> handle_message w env api event = (Inr (), [Call_get_profile (user_id event)])"
proof -
  from assms(4) have "\<not> py_in ''#e2j'' (py_lower (py_strip text))"
    using py_in_lower_strip by blast
  moreover from assms(5) have "\<not> py_in ''#j2e'' (py_lower (py_strip text))"
    using py_in_lower_strip by blast
  ultimately have "translation_trigger (py_strip text) = None"
    by (simp add: translation_trigger_def)
  then have "process_message_event w env event = (None, [Call_get_profile (user_id event)])"
    by (simp add: process_message_event_text [OF assms(1-3)])
  then show ?thesis
    by (simp add: handle_message_no_reply)
qed

theorem C6_no_trigger_no_reply_witness:
  "line_bot_api example_environment = Some (LineBotApi ''token'')
   \<and> message (text_event ''Hello there'') = TextMessage ''Hello there''
   \<and> get_profile (constant_world (Inr []) (Inr ''Bob'') (Inr ()) (Inr ''{}'')
        (Inr (model_response ''Hello''))) (LineBotApi ''token'')
        (user_id (text_event ''Hello there'')) = Inr ''Bob''
   \<and> \<not> py_in ''#e2j'' (py_lower ''Hello there'')
   \<and> \<not> py_in ''#j2e'' (py_lower ''Hello there'')
   \<and> process_message_event (constant_world (Inr []) (Inr ''Bob'') (Inr ()) (Inr ''{}'')
        (Inr (model_response ''Hello''))) example_environment (text_event ''Hello there'')
       = (None, [Call_get_profile (Some ''U1'')])
   \<and> handle_message (constant_world (Inr []) (Inr ''Bob'') (Inr ()) (Inr ''{}'')
        (Inr (model_response ''Hello''))) example_environment (LineBotApi ''token'')
        (text_event ''Hello there'')
       = (Inr (), [Call_get_profile (Some ''U1'')])"
proof -
  let ?w = "constant_world (Inr []) (Inr ''Bob'') (Inr ()) (Inr ''{}'')
        (Inr (model_response ''Hello''))"
  have 1: "line_bot_api example_environment = Some (LineBotApi ''token'')"
    by code_simp
  have 2: "message (text_event ''Hello there'') = TextMessage ''Hello there''"
    by (simp add: text_event_def)
  have 3: "get_profile ?w (LineBotApi ''token'') (user_id (text_event ''Hello there''))
      = Inr ''Bob''"
    by (simp add: constant_world_def)
  have 4: "\<not> py_in ''#e2j'' (py_lower ''Hello there'')"
    by code_simp
  have 5: "\<not> py_in ''#j2e'' (py_lower ''Hello there'')"
    by code_simp
  have 6: "user_id (text_event ''Hello there'') = Some ''U1''"
    by (simp add: text_event_def)
  from C6_no_trigger_no_reply [OF 1 2 3 4 5] 1 2 3 4 5 6 show ?thesis
    by simp
qed

text \<open>
  The claim as stated fails when the profile lookup raises: the message has no trigger, yet
  \<open>process_message_event\<close> returns the generic error text and the callback sends it.
\<close>

theorem C6_counterexample:
  "\<not> py_in ''#e2j'' (py_lower ''Hello there'')
   \<and> \<not> py_in ''#j2e'' (py_lower ''Hello there'')
   \<and> handle_message (constant_world (Inr []) (Inl (OtherException ''LineBotApiError''))
        (Inr ()) (Inr ''{}'') (Inr (model_response ''Hello''))) example_environment
        (LineBotApi ''token'') (text_event ''Hello there'')
       = (Inr (),
          [Call_get_profile (Some ''U1''),
           Log_error_exn ''Error processing message: '' (OtherException ''LineBotApiError''),
           Call_reply_message ''R1'' ''An error occurred while processing your message.''])"
  by code_simp

section \<open>An empty text to translate\<close>

text \<open>
  Claim C5, as amended. For a text message in which a trigger is found and nothing is left
  once the lower-case and the upper-case form of the marker are removed and the text is
  trimmed (the text \<open>#j2e\<close> for instance), when the messaging client is configured and the
  profile lookup of the sender succeeds, \<open>process_message_event\<close> returns \<open>None\<close>: the model
  is not called and the callback sends nothing.
\<close>

theorem C5_empty_remainder_no_reply:
  assumes "line_bot_api env = Some api"
    and "message event = TextMessage text"
    and "get_profile w api (user_id event) = Inr user_display_name"
    and "translation_trigger (py_strip text) = Some ([], source_lang, target_lang)"
  shows "process_message_event w env event = (None, [Call_get_profile (user_id event)])
    \<and> handle_message w env api event = (Inr (), [Call_get_profile (user_id event)])"
proof -
  from assms(4)
  have "process_message_event w env event = (None, [Call_get_profile (user_id event)])"
    by (simp add: process_message_event_text [OF assms(1-3)])
  then show ?thesis
    by (simp add: handle_message_no_reply)
qed

theorem C5_empty_remainder_no_reply_witness:
  "line_bot_api example_environment = Some (LineBotApi ''token'')
   \<and> message (text_event ''#j2e'') = TextMessage ''#j2e''
   \<and> get_profile (constant_world (Inr []) (Inr ''Bob'') (Inr ()) (Inr ''{}'')
        (Inr (model_response ''Hello''))) (LineBotApi ''token'')
        (user_id (text_event ''#j2e'')) = Inr ''Bob''
   \<and> translation_trigger (py_strip ''#j2e'') = Some ([], ''ja'', ''en'')
   \<and> process_message_event (constant_world (Inr []) (Inr ''Bob'') (Inr ()) (Inr ''{}'')
        (Inr (model_response ''Hello''))) example_environment (text_event ''#j2e'')
       = (None, [Call_get_profile (Some ''U1'')])
   \<and> handle_message (constant_world (Inr []) (Inr ''Bob'') (Inr ()) (Inr ''{}'')
        (Inr (model_response ''Hello''))) example_environment (LineBotApi ''token'')
        (text_event ''#j2e'')
       = (Inr (), [Call_get_profile (Some ''U1'')])"
proof -
  let ?w = "constant_world (Inr []) (Inr ''Bob'') (Inr ()) (Inr ''{}'')
        (Inr (model_response ''Hello''))"
  have 1: "line_bot_api example_environment = Some (LineBotApi ''token'')"
    by code_simp
  have 2: "message (text_event ''#j2e'') = TextMessage ''#j2e''"
    by (simp add: text_event_def)
  have 3: "get_profile ?w (LineBotApi ''token'') (user_id (text_event ''#j2e'')) = Inr ''Bob''"
    by (simp add: constant_world_def)
  have 4: "translation_trigger (py_strip ''#j2e'') = Some ([], ''ja'', ''en'')"
    by code_simp
  have 5: "user_id (text_event ''#j2e'') = Some ''U1''"
    by (simp add: text_event_def)
  from C5_empty_remainder_no_reply [OF 1 2 3 4] 1 2 3 4 5 show ?thesis
    by simp
qed

text \<open>
  The claim as stated fails when the profile lookup raises: for the text \<open>#j2e\<close> the model is
  not called, but the generic error text is returned and sent as a reply.
\<close>

theorem C5_counterexample:
  "translation_trigger (py_strip ''#j2e'') = Some ([], ''ja'', ''en'')
   \<and> process_message_event (constant_world (Inr []) (Inl (OtherException ''LineBotApiError''))
        (Inr ()) (Inr ''{}'') (Inr (model_response ''Hello''))) example_environment
        (text_event ''#j2e'')
       = (Some ''An error occurred while processing your message.'',
          [Call_get_profile (Some ''U1''),
           Log_error_exn ''Error processing message: '' (OtherException ''LineBotApiError'')])
   \<and> snd (handle_message (constant_world (Inr []) (Inl (OtherException ''LineBotApiError''))
        (Inr ()) (Inr ''{}'') (Inr (model_response ''Hello''))) example_environment
        (LineBotApi ''token'') (text_event ''#j2e''))
       = [Call_get_profile (Some ''U1''),
          Log_error_exn ''Error processing message: '' (OtherException ''LineBotApiError''),
          Call_reply_message ''R1'' ''An error occurred while processing your message.'']"
  by code_simp

section \<open>Both markers in one message\<close>

text \<open>
  Claim C4. A text that contains both \<open>#e2j\<close> and \<open>#j2e\<close> is resolved by the first check:
  the trigger is English to Japanese. The text to translate is what remains of the trimmed
  text once \<open>#e2j\<close> and \<open>#E2J\<close> are removed; it is not empty, since \<open>#j2e\<close> is still in it,
  so the message is translated from \<open>en\<close> to \<open>ja\<close>.
\<close>

theorem C4_e2j_checked_first:
  assumes "py_in ''#e2j'' text" and "py_in ''#j2e'' text"
  shows "translation_trigger (py_strip text) =
      Some (py_strip (py_replace (py_replace (py_strip text) ''#e2j'' []) ''#E2J'' []),
            ''en'', ''ja'')
    \<and> py_strip (py_replace (py_replace (py_strip text) ''#e2j'' []) ''#E2J'' []) \<noteq> []"
proof -
  from assms(1) have "sublist ''#e2j'' (py_strip text)"
    unfolding py_in_def by (intro py_strip_keeps_sublist whitespace_apart_e2j)
  then have "sublist (map lower_char ''#e2j'') (py_lower (py_strip text))"
    unfolding py_lower_def by (rule map_mono_sublist)
  moreover have "map lower_char ''#e2j'' = ''#e2j''"
    by (simp add: lower_char_def)
  ultimately have found: "py_in ''#e2j'' (py_lower (py_strip text))"
    by (simp add: py_in_def)
  from assms(2) have "sublist ''#j2e'' (py_strip text)"
    unfolding py_in_def by (intro py_strip_keeps_sublist whitespace_apart_j2e)
  then have "sublist ''#j2e'' (py_replace (py_strip text) ''#e2j'' [])"
    by (rule j2e_survives_e2j)
  then have "sublist ''#j2e'' (py_replace (py_replace (py_strip text) ''#e2j'' []) ''#E2J'' [])"
    by (rule j2e_survives_E2J)
  then have "sublist ''#j2e''
      (py_strip (py_replace (py_replace (py_strip text) ''#e2j'' []) ''#E2J'' []))"
    by (intro py_strip_keeps_sublist whitespace_apart_j2e)
  then have "py_strip (py_replace (py_replace (py_strip text) ''#e2j'' []) ''#E2J'' []) \<noteq> []"
    by auto
  with found show ?thesis
    by (simp add: translation_trigger_def)
qed

theorem C4_e2j_checked_first_witness:
  "py_in ''#e2j'' ''#j2e or #e2j''
   \<and> py_in ''#j2e'' ''#j2e or #e2j''
   \<and> translation_trigger (py_strip ''#j2e or #e2j'') = Some (''#j2e or'', ''en'', ''ja'')
   \<and> ''#j2e or'' \<noteq> []"
proof -
  have 1: "py_in ''#e2j'' ''#j2e or #e2j''"
    by code_simp
  have 2: "py_in ''#j2e'' ''#j2e or #e2j''"
    by code_simp
  have 3: "py_strip (py_replace (py_replace (py_strip ''#j2e or #e2j'') ''#e2j'' []) ''#E2J'' [])
      = ''#j2e or''"
    by code_simp
  from C4_e2j_checked_first [OF 1 2] 1 2 3 show ?thesis
    by simp
qed

section \<open>Markers in mixed case\<close>

text \<open>
  Claim C2. The marker is found in any mix of upper and lower case, but only its lower-case
  and its upper-case form are removed. For the text \<open>#E2j hello\<close> the trigger is found and
  the text to translate is still \<open>#E2j hello\<close>, which is what the model is asked to
  translate; for the example of the claim, \<open>#e2j#E2J only markers\<close>, both forms are
  removed and \<open>only markers\<close> is left.
\<close>

theorem C2_mixed_case_marker_not_removed:
  "translation_trigger (py_strip ''#E2j hello'') = Some (''#E2j hello'', ''en'', ''ja'')
   \<and> snd (process_message_event (constant_world (Inr []) (Inr ''Bob'') (Inr ()) (Inr ''{}'')
        (Inr (model_response ''Hello''))) example_environment (text_event ''#E2j hello''))
       = [Call_get_profile (Some ''U1''),
          Log_info ''Translating from en to ja: #E2j hello'',
          Call_invoke_model (Some ''apac.amazon.nova-pro-v1:0'')
            (request_body (translation_prompt ''ja'' ''#E2j hello''))]
   \<and> translation_trigger (py_strip ''#e2j#E2J only markers'')
       = Some (''only markers'', ''en'', ''ja'')"
  by code_simp

section \<open>The translation client\<close>

lemma bind_exn_Inr: "bind_exn m f = Inr y \<longleftrightarrow> (\<exists>x. m = Inr x \<and> f x = Inr y)"
  by (cases m) (simp_all add: bind_exn_def)

lemma py_getitem_Inr:
  "py_getitem j k = Inr v \<longleftrightarrow> (\<exists>kvs. j = JObj kvs \<and> map_of kvs k = Some v)"
  by (cases j) (auto split: option.splits)

lemma py_getitem0_Inr:
  "py_getitem0 j = Inr v \<longleftrightarrow>
     (\<exists>rest. j = JArr (v # rest))
     \<or> (\<exists>c cs. j = JStr (c # cs) \<and> v = JStr (take (utf8_length c) (c # cs)))"
  by (cases j rule: py_getitem0.cases) auto

lemma py_strip_method_Inr:
  "py_strip_method j = Inr t \<longleftrightarrow> (\<exists>x. j = JStr x \<and> t = py_strip x)"
  by (cases j) auto

lemma extract_translation_Inr:
  "extract_translation w response = Inr t \<longleftrightarrow>
     (\<exists>raw top output msg first rest x.
        response = Inr raw \<and> json_loads w raw = Inr (JObj top)
        \<and> map_of top ''output'' = Some (JObj output)
        \<and> map_of output ''message'' = Some (JObj msg)
        \<and> map_of msg ''content'' = Some (JArr (JObj first # rest))
        \<and> map_of first ''text'' = Some (JStr x)
        \<and> t = py_strip x)"
  (is "?l \<longleftrightarrow> ?r")
proof
  assume ?l
  then obtain raw response_body output_v msg_v content_v first_v text_v where
    1: "response = Inr raw" and 2: "json_loads w raw = Inr response_body"
    and 3: "py_getitem response_body ''output'' = Inr output_v"
    and 4: "py_getitem output_v ''message'' = Inr msg_v"
    and 5: "py_getitem msg_v ''content'' = Inr content_v"
    and 6: "py_getitem0 content_v = Inr first_v"
    and 7: "py_getitem first_v ''text'' = Inr text_v"
    and 8: "py_strip_method text_v = Inr t"
    unfolding extract_translation_def bind_exn_Inr by blast
  from 7 obtain first_d where first: "first_v = JObj first_d" "map_of first_d ''text'' = Some text_v"
    unfolding py_getitem_Inr by blast
  from 6 first(1) obtain rest where content: "content_v = JArr (JObj first_d # rest)"
    unfolding py_getitem0_Inr by auto
  from 5 content obtain msg_d where msg: "msg_v = JObj msg_d"
      "map_of msg_d ''content'' = Some (JArr (JObj first_d # rest))"
    unfolding py_getitem_Inr by blast
  from 4 msg(1) obtain output_d where out: "output_v = JObj output_d"
      "map_of output_d ''message'' = Some (JObj msg_d)"
    unfolding py_getitem_Inr by blast
  from 3 out(1) obtain top_d where top: "response_body = JObj top_d"
      "map_of top_d ''output'' = Some (JObj output_d)"
    unfolding py_getitem_Inr by blast
  from 8 obtain x where x: "text_v = JStr x" "t = py_strip x"
    unfolding py_strip_method_Inr by blast
  from 1 2 top out msg first x show ?r
    by blast
next
  assume ?r
  then show ?l
    by (auto simp: extract_translation_def bind_exn_def)
qed

text \<open>
  Claim C8. \<open>translate_text\<close> always returns: either a text, with the call to the model as
  its only effect, or \<open>None\<close>, with the call followed by the log line of the failure. It
  returns a text exactly when the call and the read succeed, the body parses, and the parsed
  value has a string at \<open>output.message.content[0].text\<close>; the text returned is that string,
  trimmed.
\<close>

theorem C8_translate_text_never_raises:
  "((\<exists>translated_text.
       translate_text w env text source_lang target_lang =
         (Some translated_text,
          [Call_invoke_model (BEDROCK_MODEL_ID env)
             (request_body (translation_prompt target_lang text))]))
    \<or> (\<exists>e.
       translate_text w env text source_lang target_lang =
         (None,
          [Call_invoke_model (BEDROCK_MODEL_ID env)
             (request_body (translation_prompt target_lang text)),
           Log_error_exn ''Translation failed: '' e])))
   \<and> (fst (translate_text w env text source_lang target_lang) = Some translated \<longleftrightarrow>
       (\<exists>raw top output msg first rest x.
          invoke_model w (BEDROCK_MODEL_ID env)
            (request_body (translation_prompt target_lang text)) = Inr raw
          \<and> json_loads w raw = Inr (JObj top)
          \<and> map_of top ''output'' = Some (JObj output)
          \<and> map_of output ''message'' = Some (JObj msg)
          \<and> map_of msg ''content'' = Some (JArr (JObj first # rest))
          \<and> map_of first ''text'' = Some (JStr x)
          \<and> translated = py_strip x))"
proof -
  let ?r = "extract_translation w (invoke_model w (BEDROCK_MODEL_ID env)
      (request_body (translation_prompt target_lang text)))"
  have "fst (translate_text w env text source_lang target_lang) = Some translated
      \<longleftrightarrow> ?r = Inr translated"
    by (cases ?r) (simp_all add: translate_text_def Let_def)
  moreover have "(\<exists>translated_text.
       translate_text w env text source_lang target_lang =
         (Some translated_text,
          [Call_invoke_model (BEDROCK_MODEL_ID env)
             (request_body (translation_prompt target_lang text))]))
    \<or> (\<exists>e.
       translate_text w env text source_lang target_lang =
         (None,
          [Call_invoke_model (BEDROCK_MODEL_ID env)
             (request_body (translation_prompt target_lang text)),
           Log_error_exn ''Translation failed: '' e]))"
    by (cases ?r) (simp_all add: translate_text_def Let_def)
  ultimately show ?thesis
    by (simp only: extract_translation_Inr)
qed

theorem C8_translate_text_never_raises_witness:
  "fst (translate_text (constant_world (Inr []) (Inr ''Bob'') (Inr ()) (Inr ''{}'')
          (Inr (model_response ''  Hello  '')))
        example_environment konnichiwa ''ja'' ''en'') = Some ''Hello''
   \<and> translate_text (constant_world (Inr []) (Inr ''Bob'') (Inr ()) (Inr ''{}'')
          (Inr (JObj [(''message'', JStr ''Too many requests'')])))
        example_environment ''Hello'' ''en'' ''ja''
       = (None,
          [Call_invoke_model (Some ''apac.amazon.nova-pro-v1:0'')
             (request_body (translation_prompt ''ja'' ''Hello'')),
           Log_error_exn ''Translation failed: '' KeyError])"
proof -
  let ?w = "constant_world (Inr []) (Inr ''Bob'') (Inr ()) (Inr ''{}'')
          (Inr (model_response ''  Hello  ''))"
  let ?f = "constant_world (Inr []) (Inr ''Bob'') (Inr ()) (Inr ''{}'')
          (Inr (JObj [(''message'', JStr ''Too many requests'')]))"
  have trimmed: "py_strip ''  Hello  '' = ''Hello''"
    by code_simp
  have "\<exists>raw top output msg first rest x.
          invoke_model ?w (BEDROCK_MODEL_ID example_environment)
            (request_body (translation_prompt ''en'' konnichiwa)) = Inr raw
          \<and> json_loads ?w raw = Inr (JObj top)
          \<and> map_of top ''output'' = Some (JObj output)
          \<and> map_of output ''message'' = Some (JObj msg)
          \<and> map_of msg ''content'' = Some (JArr (JObj first # rest))
          \<and> map_of first ''text'' = Some (JStr x)
          \<and> ''Hello'' = py_strip x"
    by (simp add: constant_world_def model_response_def trimmed)
  with C8_translate_text_never_raises [of ?w example_environment konnichiwa "''ja''" "''en''" "''Hello''"]
  have "fst (translate_text ?w example_environment konnichiwa ''ja'' ''en'') = Some ''Hello''"
    by (simp only:)
  moreover have "translate_text ?f example_environment ''Hello'' ''en'' ''ja''
       = (None,
          [Call_invoke_model (Some ''apac.amazon.nova-pro-v1:0'')
             (request_body (translation_prompt ''ja'' ''Hello'')),
           Log_error_exn ''Translation failed: '' KeyError])"
    by code_simp
  ultimately show ?thesis
    by (simp only:)
qed

section \<open>The response of the handler\<close>

lemma handle_message_returns:
  assumes "\<forall>token text. reply_message w api token text = Inr ()"
  shows "fst (handle_message w env api event) = Inr ()"
  using assms by (simp add: handle_message_def split: prod.splits option.splits)

lemma dispatch_returns:
  assumes "\<forall>token text. reply_message w api token text = Inr ()"
  shows "fst (dispatch w env api events) = Inr ()"
proof (induction events)
  case Nil
  show ?case by simp
next
  case (Cons e events)
  show ?case
  proof (cases e)
    case OtherEvent
    with Cons show ?thesis by simp
  next
    case (MessageEvent event)
    show ?thesis
    proof (cases "message event")
      case OtherMessage
      with MessageEvent Cons show ?thesis by simp
    next
      case (TextMessage t)
      from assms have "fst (handle_message w env api event) = Inr ()"
        by (rule handle_message_returns)
      then obtain effs where hm: "handle_message w env api event = (Inr (), effs)"
        by (cases "handle_message w env api event") simp
      from Cons obtain effs' where "dispatch w env api events = (Inr (), effs')"
        by (cases "dispatch w env api events") simp
      with MessageEvent TextMessage hm show ?thesis
        by simp
    qed
  qed
qed

lemma handle_returns:
  assumes "parse_webhook w h event_body signature = Inr events"
    and "\<forall>token text. reply_message w api token text = Inr ()"
  shows "fst (handle w env api h event_body signature) = Inr ()"
proof -
  from assms(2) have "fst (dispatch w env api events) = Inr ()"
    by (rule dispatch_returns)
  then obtain effs where "dispatch w env api events = (Inr (), effs)"
    by (cases "dispatch w env api events") simp
  with assms(1) show ?thesis
    by (simp add: handle_def)
qed

lemma lambda_handler_cases:
  "fst (lambda_handler w env event) = Inr r \<Longrightarrow>
     r = \<lparr>statusCode = 200, body = json_dumps ''OK''\<rparr>
     \<or> r = \<lparr>statusCode = 500, body = json_dumps configuration_error\<rparr>
     \<or> r = \<lparr>statusCode = 502, body = json_dumps invalid_signature\<rparr>"
  by (auto simp: lambda_handler_def split: option.splits sum.splits prod.splits exn.splits)

text \<open>
  Claim C3, as amended. Whenever \<open>lambda_handler\<close> returns, the response has status 200,
  500 or 502 and its body is the JSON encoding of one of three fixed strings. When the
  client and the handler are configured, the event has the signature header and a body, the
  signature is accepted and no reply call raises, it returns status 200 with the body
  \<open>"OK"\<close>. It does not return for every request: see the counterexample.
\<close>

theorem C3_lambda_handler_response:
  "(\<forall>r. fst (lambda_handler w env event) = Inr r \<longrightarrow>
      r = \<lparr>statusCode = 200, body = json_dumps ''OK''\<rparr>
      \<or> r = \<lparr>statusCode = 500,
              body = json_dumps
                ''LINE Bot not properly configured. Check environment variables.''\<rparr>
      \<or> r = \<lparr>statusCode = 502,
              body = json_dumps
                ''Invalid signature. Please check your channel access token channel secret.''\<rparr>)
   \<and> (line_bot_api env = Some api \<and> handler env = Some h
       \<and> py_getitem event ''headers'' = Inr headers
       \<and> py_getitem headers ''x-line-signature'' = Inr signature
       \<and> py_getitem event ''body'' = Inr event_body
       \<and> parse_webhook w h event_body signature = Inr events
       \<and> (\<forall>token text. reply_message w api token text = Inr ())
       \<longrightarrow> fst (lambda_handler w env event) = Inr \<lparr>statusCode = 200, body = json_dumps ''OK''\<rparr>)"
proof (intro conjI allI impI)
  fix r
  assume "fst (lambda_handler w env event) = Inr r"
  then show "r = \<lparr>statusCode = 200, body = json_dumps ''OK''\<rparr>
      \<or> r = \<lparr>statusCode = 500,
              body = json_dumps
                ''LINE Bot not properly configured. Check environment variables.''\<rparr>
      \<or> r = \<lparr>statusCode = 502,
              body = json_dumps
                ''Invalid signature. Please check your channel access token channel secret.''\<rparr>"
    using lambda_handler_cases [of w env event r]
    by (simp add: configuration_error_def invalid_signature_def)
next
  assume a: "line_bot_api env = Some api \<and> handler env = Some h
       \<and> py_getitem event ''headers'' = Inr headers
       \<and> py_getitem headers ''x-line-signature'' = Inr signature
       \<and> py_getitem event ''body'' = Inr event_body
       \<and> parse_webhook w h event_body signature = Inr events
       \<and> (\<forall>token text. reply_message w api token text = Inr ())"
  then have "fst (handle w env api h event_body signature) = Inr ()"
    by (intro handle_returns) simp_all
  then obtain effs where "handle w env api h event_body signature = (Inr (), effs)"
    by (cases "handle w env api h event_body signature") simp
  with a show "fst (lambda_handler w env event)
      = Inr \<lparr>statusCode = 200, body = json_dumps ''OK''\<rparr>"
    by (simp add: lambda_handler_def bind_exn_def)
qed

theorem C3_lambda_handler_response_witness:
  "line_bot_api example_environment = Some (LineBotApi ''token'')
   \<and> handler example_environment = Some (WebhookHandler ''secret'')
   \<and> py_getitem example_request ''headers'' = Inr (JObj [(''x-line-signature'', JStr ''signature'')])
   \<and> py_getitem (JObj [(''x-line-signature'', JStr ''signature'')]) ''x-line-signature''
       = Inr (JStr ''signature'')
   \<and> py_getitem example_request ''body'' = Inr (JStr ''{}'')
   \<and> fst (lambda_handler
         (constant_world (Inr [MessageEvent (text_event ''Hello #E2J''), OtherEvent])
            (Inr ''Alice'') (Inr ()) (Inr ''{}'') (Inr (model_response ''Konnichiwa'')))
         example_environment example_request)
       = Inr \<lparr>statusCode = 200, body = [CHR 0x22, CHR ''O'', CHR ''K'', CHR 0x22]\<rparr>"
proof -
  let ?w = "constant_world (Inr [MessageEvent (text_event ''Hello #E2J''), OtherEvent])
            (Inr ''Alice'') (Inr ()) (Inr ''{}'') (Inr (model_response ''Konnichiwa''))"
  have 1: "line_bot_api example_environment = Some (LineBotApi ''token'')"
    by code_simp
  have 2: "handler example_environment = Some (WebhookHandler ''secret'')"
    by code_simp
  have 3: "py_getitem example_request ''headers''
      = Inr (JObj [(''x-line-signature'', JStr ''signature'')])"
    by (simp add: example_request_def)
  have 4: "py_getitem (JObj [(''x-line-signature'', JStr ''signature'')]) ''x-line-signature''
       = Inr (JStr ''signature'')"
    by simp
  have 5: "py_getitem example_request ''body'' = Inr (JStr ''{}'')"
    by (simp add: example_request_def)
  have 6: "parse_webhook ?w (WebhookHandler ''secret'') (JStr ''{}'') (JStr ''signature'')
      = Inr [MessageEvent (text_event ''Hello #E2J''), OtherEvent]"
    by (simp add: constant_world_def)
  have 7: "\<forall>token text. reply_message ?w (LineBotApi ''token'') token text = Inr ()"
    by (simp add: constant_world_def)
  have 8: "json_dumps ''OK'' = [CHR 0x22, CHR ''O'', CHR ''K'', CHR 0x22]"
    by code_simp
  from C3_lambda_handler_response [of ?w example_environment example_request
      "LineBotApi ''token''" "WebhookHandler ''secret''"
      "JObj [(''x-line-signature'', JStr ''signature'')]" "JStr ''signature''" "JStr ''{}''"
      "[MessageEvent (text_event ''Hello #E2J''), OtherEvent]"]
    1 2 3 4 5 6 7 8
  show ?thesis
    by simp
qed

text \<open>
  The claim as stated fails. A request whose headers have no \<open>x-line-signature\<close> entry makes
  the handler raise \<open>KeyError\<close>; and with a valid signature, a message that is answered and a
  reply call that raises, the exception leaves the handler.
\<close>

theorem C3_counterexample:
  "fst (lambda_handler (constant_world (Inr []) (Inr ''Bob'') (Inr ()) (Inr ''{}'')
          (Inr (model_response ''Hello''))) example_environment request_without_signature)
     = Inl KeyError
   \<and> fst (lambda_handler
          (constant_world (Inr [MessageEvent (text_event ''Hello #E2J'')]) (Inr ''Alice'')
             (Inl (OtherException ''LineBotApiError'')) (Inr ''{}'')
             (Inr (model_response ''Konnichiwa'')))
          example_environment example_request)
     = Inl (OtherException ''LineBotApiError'')"
  by code_simp

end
